theory Spec2Isabelle
  imports Main
begin

section \<open>Python values, errors and list primitives\<close>

text \<open>
  The exceptions the modelled code can raise: the floor division of
  \<open>BaseImage.__init__\<close> raises \<open>ZeroDivisionError\<close> on a zero divisor, and the
  dictionary lookup of \<open>BaseImageWithDrawer.get_drawer\<close> raises \<open>KeyError\<close> with the
  missing key.
\<close>

datatype error = ZeroDivisionError | KeyError string

text \<open>
  Python's \<open>a // b\<close> on integers: floor division, as \<open>div\<close> on \<open>int\<close>, except that
  a zero divisor raises.
\<close>

definition py_floordiv :: "int \<Rightarrow> int \<Rightarrow> error + int" where
  "py_floordiv a b = (if b = 0 then Inl ZeroDivisionError else Inr (a div b))"

text \<open>
  The values stored in a pixel row of \<open>pure.py\<close>: the integer literal \<open>1\<close> of the
  padding and border lists, and the boolean \<open>not point\<close> of the data cells.
\<close>

datatype pyval = PyInt int | PyBool bool

text \<open>Python's \<open>int(v)\<close>: the number a greyscale writer reads from a pixel value.\<close>

fun py_int :: "pyval \<Rightarrow> int" where
  "py_int (PyInt n) = n"
| "py_int (PyBool b) = (if b then 1 else 0)"

text \<open>A one-bit greyscale pixel is dark when its value is 0 and light when it is 1.\<close>

definition is_dark :: "pyval \<Rightarrow> bool" where
  "is_dark v = (py_int v = 0)"

definition is_light :: "pyval \<Rightarrow> bool" where
  "is_light v = (py_int v = 1)"

text \<open>
  Python's \<open>[x] * n\<close>: \<open>n\<close> copies of \<open>x\<close>, and the empty list when \<open>n\<close> is
  negative.
\<close>

definition py_repeat :: "'a \<Rightarrow> int \<Rightarrow> 'a list" where
  "py_repeat x n = replicate (nat n) x"

text \<open>
  Python's \<open>for _ in range(n): yield x\<close>: the generator yields \<open>x\<close> exactly \<open>n\<close>
  times, and nothing when \<open>n\<close> is negative. A generator is modelled by the finite
  list of the values it yields, in order.
\<close>

definition yield_range :: "int \<Rightarrow> 'a \<Rightarrow> 'a list" where
  "yield_range n x = replicate (nat n) x"

section \<open>The geometry of \<open>BaseImage\<close> (\<open>qrcode/image/base.py\<close>)\<close>

text \<open>
  The attributes \<open>BaseImage.__init__\<close> assigns. All of them are Python integers,
  except \<open>modules\<close>, the matrix of booleans taken from the keyword argument
  \<open>qrcode_modules\<close>.
\<close>

record image =
  border :: int
  width :: int
  pixel_width :: int
  pixel_height :: int
  text_area_height :: int
  text_gap :: int
  pixel_size :: int
  box_size :: int
  qr_offset_x :: int
  qr_offset_y :: int
  text_offset_y :: int
  modules :: "bool list list"

text \<open>
  \<open>BaseImage.__init__(self, border, width, box_size, *args, **kwargs)\<close>, with the
  keyword argument \<open>qr_size\<close> as an \<open>int option\<close> (\<open>None\<close> when absent) and
  \<open>qrcode_modules\<close> as the matrix. The command line parses \<open>--qr-size\<close> with
  \<open>type=int\<close>, so \<open>int(qr_size)\<close> is the integer itself.

  The two float products of the auto-sizing branch are taken at the constants they are
  applied to: \<open>int(576 * 0.72) = int(414.72) = 414\<close> and
  \<open>int(582 * 0.81) = int(471.42) = 471\<close>; both products are far from an integer, so
  the truncation is that of the exact hundredths written here.

  The positional argument \<open>box_size\<close> is never read by the source: \<open>self.box_size\<close>
  is assigned from the division in either branch.
\<close>

definition BaseImage_init ::
  "int \<Rightarrow> int \<Rightarrow> int \<Rightarrow> int option \<Rightarrow> bool list list \<Rightarrow> error + image" where
  "BaseImage_init border_arg width_arg box_size_arg qr_size qrcode_modules =
    (let pixel_width_v = 288 * 2;
         pixel_height_v = 432 * 2;
         text_area_height_v = 120 * 2;
         text_gap_v = 42;
         qr_modules = width_arg + border_arg * 2;
         sized =
           (case qr_size of
              Some q \<Rightarrow>
                (let pixel_size0 = q
                 in case py_floordiv pixel_size0 qr_modules of
                      Inl e \<Rightarrow> Inl e
                    | Inr d \<Rightarrow>
                        (let box_size_v = max 1 d
                         in Inr (box_size_v, qr_modules * box_size_v)))
            | None \<Rightarrow>
                (let max_qr_width = (pixel_width_v * 72) div 100;
                     available_height = pixel_height_v - text_area_height_v - text_gap_v;
                     max_qr_height = (available_height * 81) div 100;
                     max_qr_size = min max_qr_width max_qr_height
                 in case py_floordiv max_qr_size qr_modules of
                      Inl e \<Rightarrow> Inl e
                    | Inr d \<Rightarrow>
                        (let box_size_v = max 1 d
                         in Inr (box_size_v, qr_modules * box_size_v))))
     in case sized of
          Inl e \<Rightarrow> Inl e
        | Inr (box_size_v, pixel_size_v) \<Rightarrow>
            (let total_content_height = pixel_size_v + text_gap_v + text_area_height_v;
                 top_margin = (pixel_height_v - total_content_height) div 2;
                 qr_offset_x_v = (pixel_width_v - pixel_size_v) div 2;
                 qr_offset_y_v = top_margin;
                 text_offset_y_v = qr_offset_y_v + pixel_size_v + text_gap_v
             in Inr \<lparr> border = border_arg, width = width_arg,
                      pixel_width = pixel_width_v, pixel_height = pixel_height_v,
                      text_area_height = text_area_height_v, text_gap = text_gap_v,
                      pixel_size = pixel_size_v, box_size = box_size_v,
                      qr_offset_x = qr_offset_x_v, qr_offset_y = qr_offset_y_v,
                      text_offset_y = text_offset_y_v,
                      modules = qrcode_modules \<rparr>))"

text \<open>
  \<open>BaseImage.pixel_box(self, row, col)\<close>: the inclusive corners of the rectangle of
  one module.
\<close>

definition pixel_box :: "image \<Rightarrow> int \<Rightarrow> int \<Rightarrow> (int \<times> int) \<times> (int \<times> int)" where
  "pixel_box self row col =
    (let x = (col + border self) * box_size self + qr_offset_x self;
         y = (row + border self) * box_size self + qr_offset_y self
     in ((x, y), (x + box_size self - 1, y + box_size self - 1)))"

text \<open>\<open>BaseImage.is_eye(self, row, col)\<close>.\<close>

definition is_eye :: "image \<Rightarrow> int \<Rightarrow> int \<Rightarrow> bool" where
  "is_eye self row col =
    ((row < 7 \<and> col < 7)
     \<or> (row < 7 \<and> width self - col < 8)
     \<or> (width self - row < 8 \<and> col < 7))"

section \<open>The streaming backend \<open>PyPNGImage\<close> (\<open>qrcode/image/pure.py\<close>)\<close>

text \<open>\<open>PyPNGImage.canvas_row\<close>: a full-width row of the literal \<open>1\<close>.\<close>

definition canvas_row :: "image \<Rightarrow> pyval list" where
  "canvas_row self = py_repeat (PyInt 1) (pixel_width self)"

text \<open>\<open>PyPNGImage.border_rows_iter\<close>.\<close>

definition border_rows_iter :: "image \<Rightarrow> pyval list list" where
  "border_rows_iter self =
    (let left_padding = py_repeat (PyInt 1) (qr_offset_x self);
         border_section =
           py_repeat (PyInt 1) (box_size self * (width self + border self * 2));
         right_padding =
           py_repeat (PyInt 1) (pixel_width self - qr_offset_x self - pixel_size self);
         border_row = left_padding @ border_section @ right_padding
     in yield_range (border self * box_size self) border_row)"

text \<open>
  The body of the loop over \<open>self.modules\<close> in \<open>rows_iter\<close>: the pixel row of one
  module row (\<open>full_row\<close>), where \<open>chain.from_iterable\<close> over the generator of
  \<open>[not point] * self.box_size\<close> is the concatenation of those lists.
\<close>

definition full_row :: "image \<Rightarrow> bool list \<Rightarrow> pyval list" where
  "full_row self module_row =
    (let border_col = py_repeat (PyInt 1) (box_size self * border self);
         left_padding = py_repeat (PyInt 1) (qr_offset_x self);
         right_padding =
           py_repeat (PyInt 1) (pixel_width self - qr_offset_x self - pixel_size self);
         qr_row =
           border_col
           @ concat (map (\<lambda>point. py_repeat (PyBool (\<not> point)) (box_size self)) module_row)
           @ border_col
     in left_padding @ qr_row @ right_padding)"

text \<open>The loop \<open>for module_row in self.modules\<close>, yielding each row \<open>box_size\<close> times.\<close>

fun data_rows :: "image \<Rightarrow> bool list list \<Rightarrow> pyval list list" where
  "data_rows self [] = []"
| "data_rows self (module_row # rest) =
     yield_range (box_size self) (full_row self module_row) @ data_rows self rest"

text \<open>\<open>PyPNGImage.rows_iter\<close>: the rows the generator yields, top to bottom.\<close>

definition rows_iter :: "image \<Rightarrow> pyval list list" where
  "rows_iter self =
    yield_range (qr_offset_y self) (canvas_row self)
    @ border_rows_iter self
    @ data_rows self (modules self)
    @ border_rows_iter self
    @ (let remaining_height = pixel_height self - qr_offset_y self - pixel_size self
       in yield_range remaining_height (canvas_row self))"

text \<open>
  The row-count invariant of the streaming backend, as a predicate on an image: the
  generator yields \<open>pixel_height\<close> rows and each of them holds \<open>pixel_width\<close>
  values. These are the dimensions \<open>new_image\<close> hands to the PNG writer.
\<close>

definition row_count_invariant :: "image \<Rightarrow> bool" where
  "row_count_invariant self =
    (int (length (rows_iter self)) = pixel_height self
     \<and> list_all (\<lambda>row. int (length row) = pixel_width self) (rows_iter self))"

text \<open>The invariant on the rows of a freshly constructed image; false when construction fails.\<close>

definition render_invariant ::
  "int \<Rightarrow> int \<Rightarrow> int \<Rightarrow> int option \<Rightarrow> bool list list \<Rightarrow> bool" where
  "render_invariant border_arg width_arg box_size_arg qr_size qrcode_modules =
    (case BaseImage_init border_arg width_arg box_size_arg qr_size qrcode_modules of
       Inl e \<Rightarrow> False
     | Inr self \<Rightarrow> row_count_invariant self)"

text \<open>A module matrix is square of side \<open>n\<close>: \<open>n\<close> rows of \<open>n\<close> booleans.\<close>

definition square_matrix :: "int \<Rightarrow> bool list list \<Rightarrow> bool" where
  "square_matrix n m =
    (int (length m) = n \<and> list_all (\<lambda>module_row. int (length module_row) = n) m)"

section \<open>Pixel rectangles and the data region\<close>

text \<open>
  Membership of a pixel in a rectangle given by its two corners, both inclusive, as
  \<open>pixel_box\<close> returns it.
\<close>

fun in_box :: "(int \<times> int) \<times> (int \<times> int) \<Rightarrow> int \<times> int \<Rightarrow> bool" where
  "in_box ((x0, y0), (x1, y1)) (px, py) = (x0 \<le> px \<and> px \<le> x1 \<and> y0 \<le> py \<and> py \<le> y1)"

text \<open>
  The interior of the symbol: the square of \<open>width\<close> by \<open>width\<close> modules that remains
  of the symbol once the border band of \<open>border\<close> modules is taken off each side, in
  pixels of the canvas.
\<close>

fun in_data_region :: "image \<Rightarrow> int \<times> int \<Rightarrow> bool" where
  "in_data_region self (px, py) =
    (qr_offset_x self + border self * box_size self \<le> px
     \<and> px < qr_offset_x self + (border self + width self) * box_size self
     \<and> qr_offset_y self + border self * box_size self \<le> py
     \<and> py < qr_offset_y self + (border self + width self) * box_size self)"

section \<open>Drawer aliases (\<open>BaseImageWithDrawer\<close> and the command line)\<close>

















section \<open>Geometry: facts about \<open>BaseImage_init\<close>\<close>

lemma BaseImage_init_zero:
  "width_arg + border_arg * 2 = 0 \<Longrightarrow>
   BaseImage_init border_arg width_arg b q m = Inl ZeroDivisionError"
  by (simp add: BaseImage_init_def py_floordiv_def split: option.splits)

lemma BaseImage_init_Some:
  "width_arg + border_arg * 2 \<noteq> 0 \<Longrightarrow>
   BaseImage_init border_arg width_arg b (Some q) m =
     Inr \<lparr> border = border_arg, width = width_arg,
           pixel_width = 576, pixel_height = 864,
           text_area_height = 240, text_gap = 42,
           pixel_size = (width_arg + border_arg * 2) * max 1 (q div (width_arg + border_arg * 2)),
           box_size = max 1 (q div (width_arg + border_arg * 2)),
           qr_offset_x =
             (576 - (width_arg + border_arg * 2) * max 1 (q div (width_arg + border_arg * 2))) div 2,
           qr_offset_y =
             (864 - ((width_arg + border_arg * 2) * max 1 (q div (width_arg + border_arg * 2))
                     + 42 + 240)) div 2,
           text_offset_y =
             (864 - ((width_arg + border_arg * 2) * max 1 (q div (width_arg + border_arg * 2))
                     + 42 + 240)) div 2
             + (width_arg + border_arg * 2) * max 1 (q div (width_arg + border_arg * 2)) + 42,
           modules = m \<rparr>"
  by (simp add: BaseImage_init_def py_floordiv_def Let_def)

lemma BaseImage_init_None:
  "width_arg + border_arg * 2 \<noteq> 0 \<Longrightarrow>
   BaseImage_init border_arg width_arg b None m =
     Inr \<lparr> border = border_arg, width = width_arg,
           pixel_width = 576, pixel_height = 864,
           text_area_height = 240, text_gap = 42,
           pixel_size = (width_arg + border_arg * 2) * max 1 (414 div (width_arg + border_arg * 2)),
           box_size = max 1 (414 div (width_arg + border_arg * 2)),
           qr_offset_x =
             (576 - (width_arg + border_arg * 2) * max 1 (414 div (width_arg + border_arg * 2))) div 2,
           qr_offset_y =
             (864 - ((width_arg + border_arg * 2) * max 1 (414 div (width_arg + border_arg * 2))
                     + 42 + 240)) div 2,
           text_offset_y =
             (864 - ((width_arg + border_arg * 2) * max 1 (414 div (width_arg + border_arg * 2))
                     + 42 + 240)) div 2
             + (width_arg + border_arg * 2) * max 1 (414 div (width_arg + border_arg * 2)) + 42,
           modules = m \<rparr>"
  by (simp add: BaseImage_init_def py_floordiv_def Let_def)


section \<open>Claims about the geometry\<close>

text \<open>
  C10. Two constructions that differ only in the \<open>box_size\<close> argument give the same
  result: every field of the geometry (\<open>box_size\<close>, \<open>pixel_size\<close>, \<open>qr_offset_x\<close>,
  \<open>qr_offset_y\<close>, \<open>text_offset_y\<close>, \<open>pixel_width\<close>, \<open>pixel_height\<close> and the rest) is the
  same, and so is a failure. The geometry comes from \<open>qr_size\<close> or from the auto-fit
  constants only.
\<close>

theorem box_size_argument_ignored:
  "BaseImage_init b w bs1 q m = BaseImage_init b w bs2 q m"
  by (simp add: BaseImage_init_def)

text \<open>
  C2. For every border \<open>\<ge> 0\<close> and width \<open>\<ge> 1\<close>, with or without a requested target
  pixel size, construction returns a geometry in which
  \<open>pixel_size = (width + 2 * border) * box_size\<close> holds exactly, where \<open>box_size\<close> is
  the floor quotient (of the target size, or of the auto-fit bound 414) clamped to at
  least 1, and \<open>pixel_size\<close> is the product computed from that \<open>box_size\<close>.
\<close>

theorem geometry_exact_divisibility:
  assumes "0 \<le> b" and "1 \<le> w"
  shows "\<exists>self. BaseImage_init b w bs q m = Inr self
           \<and> border self = b \<and> width self = w
           \<and> box_size self = max 1 ((case q of Some t \<Rightarrow> t | None \<Rightarrow> 414) div (w + 2 * b))
           \<and> 1 \<le> box_size self
           \<and> pixel_size self = (width self + 2 * border self) * box_size self"
proof -
  from assms have nz: "w + b * 2 \<noteq> 0" by arith
  show ?thesis
  proof (cases q)
    case None
    then show ?thesis
      using BaseImage_init_None [OF nz, of bs m] by (simp add: mult.commute)
  next
    case (Some t)
    then show ?thesis
      using BaseImage_init_Some [OF nz, of bs t m] by (simp add: mult.commute)
  qed
qed

theorem geometry_exact_divisibility_witness:
  "(0::int) \<le> 4 \<and> (1::int) \<le> 21
   \<and> (\<exists>self. BaseImage_init 4 21 2 (Some 100) [] = Inr self
         \<and> border self = 4 \<and> width self = 21
         \<and> box_size self = 3 \<and> pixel_size self = 87
         \<and> pixel_size self = (width self + 2 * border self) * box_size self)"
  using geometry_exact_divisibility [of 4 21 2 "Some 100" "[]"] by auto

text \<open>
  C3. With a target pixel size \<open>t\<close> (and a module count \<open>width + 2 * border\<close> other than
  zero, so that the division is defined), construction succeeds with
  \<open>box_size = max 1 (t div (width + 2 * border))\<close> and
  \<open>pixel_size = (width + 2 * border) * box_size\<close>; a target smaller than one pixel per
  module gives \<open>box_size = 1\<close> instead of a failure; and the target 100 with width 1 and
  border 0 gives \<open>box_size = 100\<close> and \<open>pixel_size = 100\<close>.
\<close>

theorem target_size_box_size:
  assumes "w + 2 * b \<noteq> 0"
  shows "(\<exists>self. BaseImage_init b w bs (Some t) m = Inr self
            \<and> box_size self = max 1 (t div (w + 2 * b))
            \<and> pixel_size self = (w + 2 * b) * box_size self
            \<and> (0 < w + 2 * b \<and> t < w + 2 * b \<longrightarrow> box_size self = 1))
         \<and> (\<exists>self. BaseImage_init 0 1 bs (Some 100) m = Inr self
              \<and> box_size self = 100 \<and> pixel_size self = 100)"
proof -
  from assms have nz: "w + b * 2 \<noteq> 0" by arith
  have small: "0 < w + 2 * b \<and> t < w + 2 * b \<longrightarrow> max 1 (t div (w + 2 * b)) = 1"
  proof
    assume h: "0 < w + 2 * b \<and> t < w + 2 * b"
    have "t div (w + 2 * b) \<le> 0"
    proof (cases "0 \<le> t")
      case True
      with h show ?thesis by simp
    next
      case False
      with h show ?thesis by (simp add: div_nonpos_pos_le0)
    qed
    then show "max 1 (t div (w + 2 * b)) = 1" by simp
  qed
  have "\<exists>self. BaseImage_init b w bs (Some t) m = Inr self
            \<and> box_size self = max 1 (t div (w + 2 * b))
            \<and> pixel_size self = (w + 2 * b) * box_size self
            \<and> (0 < w + 2 * b \<and> t < w + 2 * b \<longrightarrow> box_size self = 1)"
    using BaseImage_init_Some [OF nz, of bs t m] small by (simp add: mult.commute)
  moreover have "\<exists>self. BaseImage_init 0 1 bs (Some 100) m = Inr self
              \<and> box_size self = 100 \<and> pixel_size self = 100"
    using BaseImage_init_Some [of 1 0 bs 100 m] by simp
  ultimately show ?thesis by blast
qed

theorem target_size_box_size_witness:
  "(21::int) + 2 * 4 \<noteq> 0
   \<and> (\<exists>self. BaseImage_init 4 21 7 (Some 10) [] = Inr self
         \<and> box_size self = 1 \<and> pixel_size self = 29)"
  using target_size_box_size [of 21 4 7 10 "[]"] by auto

text \<open>
  C5 (as stated, refuted). A construction with width 0 (and border 4) does not fail: it
  returns a complete geometry.
\<close>

theorem nonpositive_width_accepted:
  "BaseImage_init 4 0 1 None [] =
     Inr \<lparr> border = 4, width = 0, pixel_width = 576, pixel_height = 864,
           text_area_height = 240, text_gap = 42, pixel_size = 408, box_size = 51,
           qr_offset_x = 84, qr_offset_y = 87, text_offset_y = 537, modules = [] \<rparr>"
  by (simp add: BaseImage_init_None)

text \<open>
  C5 (amended). Construction does not validate \<open>width\<close>. It fails exactly when the
  module count \<open>width + 2 * border\<close> is zero, with the \<open>ZeroDivisionError\<close> of the
  floor division, and then returns no geometry at all; for every other input, a
  width \<open>\<le> 0\<close> included, it returns a geometry.
\<close>

theorem construction_fails_only_on_zero_modules:
  "(BaseImage_init b w bs q m = Inl ZeroDivisionError) = (w + 2 * b = 0)
   \<and> (\<exists>self. BaseImage_init b w bs q m = Inr self) = (w + 2 * b \<noteq> 0)
   \<and> BaseImage_init b w bs q m \<noteq> Inl (KeyError s)"
proof (cases "w + b * 2 = 0")
  case True
  then show ?thesis
    using BaseImage_init_zero [OF True, of bs q m] by (simp add: mult.commute)
next
  case False
  then show ?thesis
    using BaseImage_init_None [OF False, of bs m] BaseImage_init_Some [OF False, of bs _ m]
    by (cases q) (simp_all add: mult.commute)
qed

theorem construction_fails_only_on_zero_modules_witness:
  "BaseImage_init 0 0 1 None [] = Inl ZeroDivisionError
   \<and> BaseImage_init 1 (-2) 1 (Some 100) [] = Inl ZeroDivisionError
   \<and> (\<exists>self. BaseImage_init 4 (-5) 1 None [] = Inr self)"
  using construction_fails_only_on_zero_modules [of 0 0 1 None "[]"]
    construction_fails_only_on_zero_modules [of 1 "-2" 1 "Some 100" "[]"]
    construction_fails_only_on_zero_modules [of 4 "-5" 1 None "[]"]
  by simp

text \<open>
  C8. \<open>is_eye\<close> is the stated formula for every row, column and width; its value
  depends on nothing of the image but \<open>width\<close> (it reads no other attribute and changes
  none); on a grid of width 21 it holds at the three finder-pattern corners
  \<open>(0, 0)\<close>, \<open>(0, 20)\<close> and \<open>(20, 0)\<close> and at the inner corners of their 7 by 7
  blocks, and it fails at the centre \<open>(10, 10)\<close> and at the fourth corner \<open>(20, 20)\<close>.
\<close>

theorem is_eye_formula_and_corners:
  "is_eye (self\<lparr>width := w\<rparr>) row col =
     ((row < 7 \<and> col < 7) \<or> (row < 7 \<and> w - col < 8) \<or> (w - row < 8 \<and> col < 7))
   \<and> is_eye (self\<lparr>width := w\<rparr>) row col = is_eye (other\<lparr>width := w\<rparr>) row col
   \<and> is_eye (self\<lparr>width := 21\<rparr>) 0 0
   \<and> is_eye (self\<lparr>width := 21\<rparr>) 0 20
   \<and> is_eye (self\<lparr>width := 21\<rparr>) 20 0
   \<and> is_eye (self\<lparr>width := 21\<rparr>) 6 6
   \<and> is_eye (self\<lparr>width := 21\<rparr>) 6 14
   \<and> is_eye (self\<lparr>width := 21\<rparr>) 14 6
   \<and> \<not> is_eye (self\<lparr>width := 21\<rparr>) 10 10
   \<and> \<not> is_eye (self\<lparr>width := 21\<rparr>) 20 20"
  by (simp add: is_eye_def)

section \<open>Claims about drawer aliases\<close>




section \<open>Pixel boxes\<close>

lemma band_div:
  fixes s k v :: int
  assumes "0 < s" and "k * s \<le> v" and "v < k * s + s"
  shows "v div s = k"
proof -
  have "v = s * k + (v - k * s)" by (simp add: mult.commute)
  moreover have "0 \<le> v - k * s" using assms(2) by simp
  moreover have "v - k * s < s" using assms(3) by simp
  ultimately show ?thesis using int_div_pos_eq by blast
qed

lemma div_band:
  fixes s v :: int
  assumes "0 < s"
  shows "(v div s) * s \<le> v \<and> v < (v div s) * s + s"
proof -
  have "v = (v div s) * s + v mod s" by simp
  moreover have "0 \<le> v mod s" and "v mod s < s" using assms by simp_all
  ultimately show ?thesis by linarith
qed

lemma in_box_pixel_box:
  "in_box (pixel_box self r c) (px, py) =
     ((c + border self) * box_size self \<le> px - qr_offset_x self
      \<and> px - qr_offset_x self < (c + border self) * box_size self + box_size self
      \<and> (r + border self) * box_size self \<le> py - qr_offset_y self
      \<and> py - qr_offset_y self < (r + border self) * box_size self + box_size self)"
  by (auto simp add: pixel_box_def Let_def)

lemma in_box_cell:
  assumes "1 \<le> box_size self" and "in_box (pixel_box self r c) (px, py)"
  shows "c = (px - qr_offset_x self) div box_size self - border self"
    and "r = (py - qr_offset_y self) div box_size self - border self"
proof -
  from assms(1) have pos: "0 < box_size self" by simp
  from assms(2) have
    cx: "(c + border self) * box_size self \<le> px - qr_offset_x self"
      "px - qr_offset_x self < (c + border self) * box_size self + box_size self" and
    ry: "(r + border self) * box_size self \<le> py - qr_offset_y self"
      "py - qr_offset_y self < (r + border self) * box_size self + box_size self"
    by (simp_all add: in_box_pixel_box)
  from band_div [OF pos cx]
  show "c = (px - qr_offset_x self) div box_size self - border self" by simp
  from band_div [OF pos ry]
  show "r = (py - qr_offset_y self) div box_size self - border self" by simp
qed

lemma pixel_boxes_disjoint:
  assumes "1 \<le> box_size self"
    and "in_box (pixel_box self r1 c1) p" and "in_box (pixel_box self r2 c2) p"
  shows "(r1, c1) = (r2, c2)"
proof -
  obtain px py where p: "p = (px, py)" by (cases p)
  from in_box_cell [OF assms(1), of r1 c1 px py] in_box_cell [OF assms(1), of r2 c2 px py]
    assms(2,3) p
  show ?thesis by simp
qed

lemma band_index:
  fixes s b w v :: int
  assumes "0 < s" and "b * s \<le> v" and "v < (b + w) * s"
  shows "0 \<le> v div s - b \<and> v div s - b < w"
proof -
  from div_band [OF assms(1), of v]
  have lo: "(v div s) * s \<le> v" and hi: "v < (v div s) * s + s" by simp_all
  have "b \<le> v div s"
  proof (rule ccontr)
    assume "\<not> b \<le> v div s"
    then have "v div s + 1 \<le> b" by simp
    then have "(v div s + 1) * s \<le> b * s" using assms(1) by (simp add: mult_right_mono)
    then have "(v div s) * s + s \<le> b * s" by (simp add: algebra_simps)
    with hi assms(2) show False by linarith
  qed
  moreover have "v div s < b + w"
  proof (rule ccontr)
    assume "\<not> v div s < b + w"
    then have "b + w \<le> v div s" by simp
    then have "(b + w) * s \<le> (v div s) * s" using assms(1) by (simp add: mult_right_mono)
    with lo assms(3) show False by linarith
  qed
  ultimately show ?thesis by simp
qed

lemma data_region_covered:
  assumes "1 \<le> box_size self" and "in_data_region self (px, py)"
  shows "\<exists>r c. 0 \<le> r \<and> r < width self \<and> 0 \<le> c \<and> c < width self
           \<and> in_box (pixel_box self r c) (px, py)"
proof -
  from assms(1) have pos: "0 < box_size self" by simp
  define c where "c = (px - qr_offset_x self) div box_size self - border self"
  define r where "r = (py - qr_offset_y self) div box_size self - border self"
  from assms(2) have
    x: "border self * box_size self \<le> px - qr_offset_x self"
       "px - qr_offset_x self < (border self + width self) * box_size self" and
    y: "border self * box_size self \<le> py - qr_offset_y self"
       "py - qr_offset_y self < (border self + width self) * box_size self"
    by simp_all
  from band_index [OF pos x] have c: "0 \<le> c \<and> c < width self" by (simp add: c_def)
  from band_index [OF pos y] have r: "0 \<le> r \<and> r < width self" by (simp add: r_def)
  from div_band [OF pos, of "px - qr_offset_x self"] div_band [OF pos, of "py - qr_offset_y self"]
  have "in_box (pixel_box self r c) (px, py)"
    by (simp add: in_box_pixel_box c_def r_def)
  with c r show ?thesis by blast
qed

lemma pixel_box_in_data_region:
  assumes "1 \<le> box_size self"
    and "0 \<le> r" and "r < width self" and "0 \<le> c" and "c < width self"
    and "in_box (pixel_box self r c) (px, py)"
  shows "in_data_region self (px, py)"
proof -
  from assms(1) have pos: "0 \<le> box_size self" by simp
  have band: "b * s \<le> (k + b) * s \<and> (k + b) * s + s \<le> (b + w) * s"
    if "0 \<le> s" and "0 \<le> k" and "k < w" for b s k w :: int
  proof -
    have "b * s \<le> (k + b) * s" using that by (simp add: mult_right_mono)
    moreover have "(k + b + 1) * s \<le> (b + w) * s" using that by (simp add: mult_right_mono)
    then have "(k + b) * s + s \<le> (b + w) * s" by (simp add: algebra_simps)
    ultimately show ?thesis by simp
  qed
  from band [OF pos assms(4,5), of "border self"]
  have colband: "border self * box_size self \<le> (c + border self) * box_size self"
    "(c + border self) * box_size self + box_size self
       \<le> (border self + width self) * box_size self"
    by blast+
  from band [OF pos assms(2,3), of "border self"]
  have rowband: "border self * box_size self \<le> (r + border self) * box_size self"
    "(r + border self) * box_size self + box_size self
       \<le> (border self + width self) * box_size self"
    by blast+
  from assms(6) have inb:
    "(c + border self) * box_size self \<le> px - qr_offset_x self"
    "px - qr_offset_x self < (c + border self) * box_size self + box_size self"
    "(r + border self) * box_size self \<le> py - qr_offset_y self"
    "py - qr_offset_y self < (r + border self) * box_size self + box_size self"
    by (simp_all add: in_box_pixel_box)
  show ?thesis
    unfolding in_data_region.simps using colband rowband inb by linarith
qed

text \<open>
  C6. For a geometry with \<open>box_size \<ge> 1\<close>, \<open>pixel_box row col\<close> is the rectangle
  \<open>((x, y), (x + box_size - 1, y + box_size - 1))\<close> with
  \<open>x = (col + border) * box_size + qr_offset_x\<close> and
  \<open>y = (row + border) * box_size + qr_offset_y\<close>; the inclusive rectangles of two
  different cells share no pixel; and a pixel lies in the interior data region exactly
  when it lies in the rectangle of some cell of the \<open>width\<close> by \<open>width\<close> grid, so the
  rectangles tile the region without gap or overlap.
\<close>

theorem pixel_box_tiles_data_region:
  assumes "1 \<le> box_size self"
  shows "pixel_box self row col =
           (((col + border self) * box_size self + qr_offset_x self,
             (row + border self) * box_size self + qr_offset_y self),
            ((col + border self) * box_size self + qr_offset_x self + box_size self - 1,
             (row + border self) * box_size self + qr_offset_y self + box_size self - 1))
         \<and> (\<forall>r1 c1 r2 c2 p. (r1, c1) \<noteq> (r2, c2) \<longrightarrow>
               \<not> (in_box (pixel_box self r1 c1) p \<and> in_box (pixel_box self r2 c2) p))
         \<and> (\<forall>p. in_data_region self p =
               (\<exists>r c. 0 \<le> r \<and> r < width self \<and> 0 \<le> c \<and> c < width self
                  \<and> in_box (pixel_box self r c) p))"
proof (intro conjI allI impI)
  show "pixel_box self row col =
           (((col + border self) * box_size self + qr_offset_x self,
             (row + border self) * box_size self + qr_offset_y self),
            ((col + border self) * box_size self + qr_offset_x self + box_size self - 1,
             (row + border self) * box_size self + qr_offset_y self + box_size self - 1))"
    by (simp add: pixel_box_def Let_def)
next
  fix r1 c1 r2 c2 :: int and p :: "int \<times> int"
  assume "(r1, c1) \<noteq> (r2, c2)"
  then show "\<not> (in_box (pixel_box self r1 c1) p \<and> in_box (pixel_box self r2 c2) p)"
    using pixel_boxes_disjoint [OF assms, of r1 c1 p r2 c2] by blast
next
  fix p :: "int \<times> int"
  obtain px py where p: "p = (px, py)" by (cases p)
  show "in_data_region self p =
          (\<exists>r c. 0 \<le> r \<and> r < width self \<and> 0 \<le> c \<and> c < width self
             \<and> in_box (pixel_box self r c) p)"
    unfolding p
    using data_region_covered [OF assms, of px py] pixel_box_in_data_region [OF assms, of _ _ px py]
    by blast
qed

theorem pixel_box_tiles_data_region_witness:
  "1 \<le> box_size \<lparr> border = 4, width = 21, pixel_width = 576, pixel_height = 864,
         text_area_height = 240, text_gap = 42, pixel_size = 58, box_size = 2,
         qr_offset_x = 259, qr_offset_y = 262, text_offset_y = 362, modules = [] \<rparr>
   \<and> pixel_box \<lparr> border = 4, width = 21, pixel_width = 576, pixel_height = 864,
         text_area_height = 240, text_gap = 42, pixel_size = 58, box_size = 2,
         qr_offset_x = 259, qr_offset_y = 262, text_offset_y = 362, modules = [] \<rparr> 0 0 = ((267, 270), (268, 271))
   \<and> \<not> (in_box (pixel_box \<lparr> border = 4, width = 21, pixel_width = 576, pixel_height = 864,
         text_area_height = 240, text_gap = 42, pixel_size = 58, box_size = 2,
         qr_offset_x = 259, qr_offset_y = 262, text_offset_y = 362, modules = [] \<rparr> 0 0) (268, 271)
        \<and> in_box (pixel_box \<lparr> border = 4, width = 21, pixel_width = 576, pixel_height = 864,
         text_area_height = 240, text_gap = 42, pixel_size = 58, box_size = 2,
         qr_offset_x = 259, qr_offset_y = 262, text_offset_y = 362, modules = [] \<rparr> 0 1) (268, 271))
   \<and> in_data_region \<lparr> border = 4, width = 21, pixel_width = 576, pixel_height = 864,
         text_area_height = 240, text_gap = 42, pixel_size = 58, box_size = 2,
         qr_offset_x = 259, qr_offset_y = 262, text_offset_y = 362, modules = [] \<rparr> (268, 271)
   \<and> (\<exists>r c. 0 \<le> r \<and> r < 21 \<and> 0 \<le> c \<and> c < 21
         \<and> in_box (pixel_box \<lparr> border = 4, width = 21, pixel_width = 576, pixel_height = 864,
         text_area_height = 240, text_gap = 42, pixel_size = 58, box_size = 2,
         qr_offset_x = 259, qr_offset_y = 262, text_offset_y = 362, modules = [] \<rparr> r c) (268, 271))"
proof -
  let ?g = "\<lparr> border = 4, width = 21, pixel_width = 576, pixel_height = 864,
         text_area_height = 240, text_gap = 42, pixel_size = 58, box_size = 2,
         qr_offset_x = 259, qr_offset_y = 262, text_offset_y = 362, modules = [] \<rparr>"
  have h: "1 \<le> box_size ?g" by simp
  note t = pixel_box_tiles_data_region [OF h, of 0 0]
  from t have box: "pixel_box ?g 0 0 = ((267, 270), (268, 271))" by simp
  from t have "\<forall>r1 c1 r2 c2 p. (r1, c1) \<noteq> (r2, c2) \<longrightarrow>
      \<not> (in_box (pixel_box ?g r1 c1) p \<and> in_box (pixel_box ?g r2 c2) p)"
    by (rule conjunct1 [OF conjunct2])
  then have "((0::int), (0::int)) \<noteq> (0, 1) \<longrightarrow>
      \<not> (in_box (pixel_box ?g 0 0) (268, 271) \<and> in_box (pixel_box ?g 0 1) (268, 271))"
    by blast
  then have disj:
    "\<not> (in_box (pixel_box ?g 0 0) (268, 271) \<and> in_box (pixel_box ?g 0 1) (268, 271))"
    by simp
  from t have "\<forall>p. in_data_region ?g p =
      (\<exists>r c. 0 \<le> r \<and> r < width ?g \<and> 0 \<le> c \<and> c < width ?g
         \<and> in_box (pixel_box ?g r c) p)"
    by (rule conjunct2 [OF conjunct2])
  then have "in_data_region ?g (268, 271) =
      (\<exists>r c. 0 \<le> r \<and> r < width ?g \<and> 0 \<le> c \<and> c < width ?g
         \<and> in_box (pixel_box ?g r c) (268, 271))"
    by (rule spec)
  moreover have reg: "in_data_region ?g (268, 271)" by simp
  ultimately have "\<exists>r c. 0 \<le> r \<and> r < width ?g \<and> 0 \<le> c \<and> c < width ?g
         \<and> in_box (pixel_box ?g r c) (268, 271)"
    by simp
  then have cov: "\<exists>r c. 0 \<le> r \<and> r < 21 \<and> 0 \<le> c \<and> c < 21
         \<and> in_box (pixel_box ?g r c) (268, 271)"
    by simp
  from h box disj reg cov show ?thesis by blast
qed

section \<open>The rows of the streaming backend\<close>

lemma BaseImage_init_fields:
  assumes "BaseImage_init b w bs q m = Inr self"
  shows "border self = b" and "width self = w" and "modules self = m"
    and "pixel_width self = 576" and "pixel_height self = 864"
    and "1 \<le> box_size self"
    and "pixel_size self = (w + 2 * b) * box_size self"
    and "qr_offset_x self = (576 - pixel_size self) div 2"
    and "qr_offset_y self = (582 - pixel_size self) div 2"
    and "q = None \<Longrightarrow> box_size self = max 1 (414 div (w + 2 * b))"
    and "\<And>t. q = Some t \<Longrightarrow> box_size self = max 1 (t div (w + 2 * b))"
proof -
  have nz: "w + b * 2 \<noteq> 0"
    using assms BaseImage_init_zero [of w b bs q m] by auto
  have eq: "(864 - (p + 42 + 240)) div 2 = (582 - p) div 2" for p :: int
  proof -
    have "864 - (p + 42 + 240) = 582 - p" by arith
    then show ?thesis by (rule arg_cong)
  qed
  have all: "border self = b \<and> width self = w \<and> modules self = m
    \<and> pixel_width self = 576 \<and> pixel_height self = 864
    \<and> 1 \<le> box_size self
    \<and> pixel_size self = (w + 2 * b) * box_size self
    \<and> qr_offset_x self = (576 - pixel_size self) div 2
    \<and> qr_offset_y self = (582 - pixel_size self) div 2
    \<and> (q = None \<longrightarrow> box_size self = max 1 (414 div (w + 2 * b)))
    \<and> (\<forall>t. q = Some t \<longrightarrow> box_size self = max 1 (t div (w + 2 * b)))"
  proof (cases q)
    case None
    with assms BaseImage_init_None [OF nz, of bs m]
    have "self = \<lparr> border = b, width = w,
           pixel_width = 576, pixel_height = 864,
           text_area_height = 240, text_gap = 42,
           pixel_size = (w + b * 2) * max 1 (414 div (w + b * 2)),
           box_size = max 1 (414 div (w + b * 2)),
           qr_offset_x = (576 - (w + b * 2) * max 1 (414 div (w + b * 2))) div 2,
           qr_offset_y = (864 - ((w + b * 2) * max 1 (414 div (w + b * 2)) + 42 + 240)) div 2,
           text_offset_y = (864 - ((w + b * 2) * max 1 (414 div (w + b * 2)) + 42 + 240)) div 2
             + (w + b * 2) * max 1 (414 div (w + b * 2)) + 42,
           modules = m \<rparr>"
      by simp
    with None show ?thesis by (simp only: eq) (simp add: mult.commute)
  next
    case (Some t)
    with assms BaseImage_init_Some [OF nz, of bs t m]
    have "self = \<lparr> border = b, width = w,
           pixel_width = 576, pixel_height = 864,
           text_area_height = 240, text_gap = 42,
           pixel_size = (w + b * 2) * max 1 (t div (w + b * 2)),
           box_size = max 1 (t div (w + b * 2)),
           qr_offset_x = (576 - (w + b * 2) * max 1 (t div (w + b * 2))) div 2,
           qr_offset_y = (864 - ((w + b * 2) * max 1 (t div (w + b * 2)) + 42 + 240)) div 2,
           text_offset_y = (864 - ((w + b * 2) * max 1 (t div (w + b * 2)) + 42 + 240)) div 2
             + (w + b * 2) * max 1 (t div (w + b * 2)) + 42,
           modules = m \<rparr>"
      by simp
    with Some show ?thesis by (simp only: eq) (simp add: mult.commute)
  qed
  from all show "border self = b" and "width self = w" and "modules self = m"
    and "pixel_width self = 576" and "pixel_height self = 864"
    and "1 \<le> box_size self"
    and "pixel_size self = (w + 2 * b) * box_size self"
    and "qr_offset_x self = (576 - pixel_size self) div 2"
    and "qr_offset_y self = (582 - pixel_size self) div 2"
    by simp_all
  from all show "q = None \<Longrightarrow> box_size self = max 1 (414 div (w + 2 * b))" by simp
  from all show "\<And>t. q = Some t \<Longrightarrow> box_size self = max 1 (t div (w + 2 * b))" by simp
qed

lemma length_concat_replicate:
  "length (concat (map (\<lambda>x. replicate n (f x)) xs)) = length xs * n"
  by (induction xs) simp_all

lemma length_canvas_row: "length (canvas_row self) = nat (pixel_width self)"
  by (simp add: canvas_row_def py_repeat_def)

lemma length_border_rows_iter:
  "length (border_rows_iter self) = nat (border self * box_size self)"
  by (simp add: border_rows_iter_def yield_range_def Let_def)

lemma length_border_row:
  assumes "row \<in> set (border_rows_iter self)"
  shows "length row = nat (qr_offset_x self)
           + nat (box_size self * (width self + border self * 2))
           + nat (pixel_width self - qr_offset_x self - pixel_size self)"
  using assms by (auto simp add: border_rows_iter_def yield_range_def py_repeat_def Let_def)

lemma length_full_row:
  "length (full_row self module_row) =
     nat (qr_offset_x self)
     + (nat (box_size self * border self) + length module_row * nat (box_size self)
        + nat (box_size self * border self))
     + nat (pixel_width self - qr_offset_x self - pixel_size self)"
  by (simp add: full_row_def py_repeat_def Let_def length_concat_replicate)

lemma data_rows_concat:
  "data_rows self ms =
     concat (map (\<lambda>module_row. replicate (nat (box_size self)) (full_row self module_row)) ms)"
  by (induction ms) (simp_all add: yield_range_def)

lemma length_data_rows:
  "length (data_rows self ms) = length ms * nat (box_size self)"
  by (simp add: data_rows_concat length_concat_replicate)

lemma set_data_rows:
  assumes "row \<in> set (data_rows self ms)"
  shows "\<exists>module_row \<in> set ms. row = full_row self module_row"
  using assms by (auto simp add: data_rows_concat)

lemma full_row_in_data_rows:
  assumes "module_row \<in> set ms" and "1 \<le> box_size self"
  shows "full_row self module_row \<in> set (data_rows self ms)"
proof -
  from assms(2) have "nat (box_size self) \<noteq> 0" by simp
  with assms(1) show ?thesis by (auto simp add: data_rows_concat)
qed

lemma length_rows_iter:
  "length (rows_iter self) =
     nat (qr_offset_y self) + nat (border self * box_size self)
     + length (modules self) * nat (box_size self)
     + nat (border self * box_size self)
     + nat (pixel_height self - qr_offset_y self - pixel_size self)"
  by (simp add: rows_iter_def yield_range_def Let_def length_border_rows_iter length_data_rows)

lemma set_rows_iter:
  assumes "row \<in> set (rows_iter self)"
  shows "row = canvas_row self \<or> row \<in> set (border_rows_iter self)
         \<or> (\<exists>module_row \<in> set (modules self). row = full_row self module_row)"
proof -
  from assms have "row = canvas_row self \<or> row \<in> set (border_rows_iter self)
      \<or> row \<in> set (data_rows self (modules self))"
    by (auto simp add: rows_iter_def yield_range_def Let_def)
  then show ?thesis using set_data_rows [of row self "modules self"] by blast
qed

lemma full_row_in_rows_iter:
  assumes "module_row \<in> set (modules self)" and "1 \<le> box_size self"
  shows "full_row self module_row \<in> set (rows_iter self)"
  using full_row_in_data_rows [OF assms] by (simp add: rows_iter_def)

text \<open>
  The canvas is filled exactly when the symbol lies inside it: with non-negative offsets
  and the symbol ending before the right and bottom edges, the row count and the row
  lengths are those of the canvas.
\<close>

lemma rows_fill_canvas:
  assumes b: "0 \<le> border self" and s: "0 \<le> box_size self"
    and ps: "pixel_size self = (width self + 2 * border self) * box_size self"
    and ox: "0 \<le> qr_offset_x self" and oy: "0 \<le> qr_offset_y self"
    and fx: "qr_offset_x self + pixel_size self \<le> pixel_width self"
    and fy: "qr_offset_y self + pixel_size self \<le> pixel_height self"
    and sq: "square_matrix (width self) (modules self)"
  shows "int (length (rows_iter self)) = pixel_height self"
    and "\<forall>row \<in> set (rows_iter self). int (length row) = pixel_width self"
proof -
  from sq have len: "int (length (modules self)) = width self"
    and rows: "\<forall>module_row \<in> set (modules self). int (length module_row) = width self"
    by (simp_all add: square_matrix_def list_all_iff)
  from len have w: "0 \<le> width self" by linarith
  have bb: "0 \<le> border self * box_size self" using b s by simp
  have bb': "0 \<le> box_size self * border self" using b s by simp
  have sym: "0 \<le> box_size self * (width self + border self * 2)" using b s w by simp
  have split: "(width self + 2 * border self) * box_size self =
      border self * box_size self + width self * box_size self + border self * box_size self"
    by (simp add: algebra_simps)
  have "int (length (rows_iter self)) =
      qr_offset_y self + border self * box_size self
      + width self * box_size self + border self * box_size self
      + (pixel_height self - qr_offset_y self - pixel_size self)"
    using oy bb s fy len by (simp add: length_rows_iter)
  also have "\<dots> = pixel_height self" using ps split by simp
  finally show "int (length (rows_iter self)) = pixel_height self" .
  show "\<forall>row \<in> set (rows_iter self). int (length row) = pixel_width self"
  proof
    fix row assume "row \<in> set (rows_iter self)"
    from set_rows_iter [OF this]
    consider "row = canvas_row self" | "row \<in> set (border_rows_iter self)"
      | module_row where "module_row \<in> set (modules self)" "row = full_row self module_row"
      by blast
    then show "int (length row) = pixel_width self"
    proof cases
      case 1
      have "0 \<le> (width self + 2 * border self) * box_size self" using b s w by simp
      with ps ox fx have "0 \<le> pixel_width self" by linarith
      with 1 show ?thesis by (simp add: length_canvas_row)
    next
      case 2
      from length_border_row [OF 2]
      have "int (length row) = qr_offset_x self
          + box_size self * (width self + border self * 2)
          + (pixel_width self - qr_offset_x self - pixel_size self)"
        using ox sym fx by simp
      also have "\<dots> = pixel_width self" using ps by (simp add: algebra_simps)
      finally show ?thesis .
    next
      case 3
      from rows 3(1) have lr: "int (length module_row) = width self" by blast
      have "int (length row) = qr_offset_x self
          + (box_size self * border self + width self * box_size self
             + box_size self * border self)
          + (pixel_width self - qr_offset_x self - pixel_size self)"
        using ox bb' s fx lr by (simp add: 3(2) length_full_row)
      also have "\<dots> = pixel_width self" using ps by (simp add: algebra_simps)
      finally show ?thesis .
    qed
  qed
qed

lemma constructed_rows_fill_canvas:
  assumes init: "BaseImage_init b w bs q m = Inr self"
    and b: "0 \<le> b" and w: "1 \<le> w" and sq: "square_matrix w m"
    and fit: "pixel_size self \<le> pixel_width self"
  shows "int (length (rows_iter self)) = pixel_height self"
    and "\<forall>row \<in> set (rows_iter self). int (length row) = pixel_width self"
proof -
  note f = BaseImage_init_fields [OF init]
  from fit f(4) have p: "pixel_size self \<le> 576" by simp
  have pre: "0 \<le> border self" "0 \<le> box_size self"
    "pixel_size self = (width self + 2 * border self) * box_size self"
    "0 \<le> qr_offset_x self" "0 \<le> qr_offset_y self"
    "qr_offset_x self + pixel_size self \<le> pixel_width self"
    "qr_offset_y self + pixel_size self \<le> pixel_height self"
    "square_matrix (width self) (modules self)"
    using f(1-9) b sq p by simp_all
  from rows_fill_canvas [OF pre]
  show "int (length (rows_iter self)) = pixel_height self"
    and "\<forall>row \<in> set (rows_iter self). int (length row) = pixel_width self"
    by simp_all
qed

lemma auto_fit_within_canvas:
  assumes init: "BaseImage_init b w bs None m = Inr self"
    and b: "0 \<le> b" and w: "1 \<le> w"
  shows "(pixel_size self \<le> pixel_width self) = (w + 2 * b \<le> 576)"
proof -
  note f = BaseImage_init_fields [OF init]
  from b w have pos: "0 < w + 2 * b" by simp
  from f(10) have bx: "box_size self = max 1 (414 div (w + 2 * b))" by simp
  show ?thesis
  proof (cases "w + 2 * b \<le> 414")
    case True
    with pos have "0 < 414 div (w + 2 * b)"
      by (simp add: pos_imp_zdiv_pos_iff)
    then have "1 \<le> 414 div (w + 2 * b)" by linarith
    with bx have "box_size self = 414 div (w + 2 * b)" by simp
    then have "pixel_size self = (w + 2 * b) * (414 div (w + 2 * b))" using f(7) by simp
    also have "\<dots> \<le> 414" using div_band [OF pos, of 414] by (simp add: mult.commute)
    finally show ?thesis using True f(4) by simp
  next
    case False
    then have "414 div (w + 2 * b) = 0" by (simp add: div_pos_pos_trivial)
    with bx have "box_size self = 1" by simp
    then have "pixel_size self = w + 2 * b" using f(7) by simp
    then show ?thesis using f(4) by simp
  qed
qed

lemma overflow_row_too_long:
  assumes init: "BaseImage_init b w bs q m = Inr self"
    and b: "0 \<le> b" and w: "1 \<le> w" and sq: "square_matrix w m"
    and over: "pixel_width self < pixel_size self"
  shows "\<exists>row \<in> set (rows_iter self). int (length row) = pixel_size self"
proof -
  note f = BaseImage_init_fields [OF init]
  from sq w obtain module_row where mr: "module_row \<in> set m"
    and lr: "int (length module_row) = w"
    by (cases m) (auto simp add: square_matrix_def)
  from over f(4) have p: "576 < pixel_size self" by simp
  from p f(8) have ox: "qr_offset_x self < 0" by simp
  from p f(8) have right: "pixel_width self - qr_offset_x self - pixel_size self \<le> 0"
    using f(4) by simp
  have bb: "0 \<le> box_size self * border self" using b f(1,6) by simp
  have "full_row self module_row \<in> set (rows_iter self)"
    using full_row_in_rows_iter [of module_row self] mr f(3,6) by simp
  moreover have "int (length (full_row self module_row)) =
      box_size self * border self + w * box_size self + box_size self * border self"
    using ox right bb lr f(6) by (simp add: length_full_row)
  then have "int (length (full_row self module_row)) = pixel_size self"
    using f(1,7) by (simp add: algebra_simps)
  ultimately show ?thesis by blast
qed

section \<open>Claims about the row count\<close>

text \<open>
  C4 (as stated, refuted). Constructing with width 21, border 4 and box size 2 does not
  give a symbol of 58 pixels: the \<open>box_size\<close> argument is not used, the auto-fit box
  size is 14 and the symbol is 406 pixels wide.
\<close>

theorem box_size_two_not_58:
  "map_sum id pixel_size (BaseImage_init 4 21 2 None (replicate 21 (replicate 21 False)))
     = Inr 406
   \<and> map_sum id pixel_size (BaseImage_init 4 21 2 None (replicate 21 (replicate 21 False)))
     \<noteq> Inr 58
   \<and> map_sum id box_size (BaseImage_init 4 21 2 None (replicate 21 (replicate 21 False)))
     = Inr 14"
  by (simp add: BaseImage_init_None)

text \<open>
  C4 (amended). Constructing with width 21, border 4 and box size 2 (no target size)
  yields \<open>box_size = 14\<close> and \<open>pixel_size = (21 + 8) * 14 = 406\<close>; the symbol size 58
  with \<open>box_size = 2\<close> is what the target size 58 yields. In both cases the generator
  yields 864 rows, the fixed \<open>pixel_height\<close>, for a matrix of 21 rows.
\<close>

theorem version1_geometry_and_row_count:
  assumes "length m = 21"
  shows "(\<exists>self. BaseImage_init 4 21 2 None m = Inr self
            \<and> box_size self = 14 \<and> pixel_size self = (21 + 8) * 14 \<and> pixel_size self = 406
            \<and> int (length (rows_iter self)) = pixel_height self
            \<and> length (rows_iter self) = 864)
         \<and> (\<exists>self. BaseImage_init 4 21 2 (Some 58) m = Inr self
              \<and> box_size self = 2 \<and> pixel_size self = 58
              \<and> int (length (rows_iter self)) = pixel_height self
              \<and> length (rows_iter self) = 864)"
  using assms by (simp add: BaseImage_init_None BaseImage_init_Some length_rows_iter)

theorem version1_geometry_and_row_count_witness:
  "length (replicate 21 (replicate 21 False)) = 21
   \<and> (\<exists>self. BaseImage_init 4 21 2 None (replicate 21 (replicate 21 False)) = Inr self
         \<and> box_size self = 14 \<and> pixel_size self = 406
         \<and> length (rows_iter self) = 864)"
proof -
  have h: "length (replicate 21 (replicate 21 False)) = 21" by simp
  from version1_geometry_and_row_count [OF h] h show ?thesis by blast
qed

section \<open>The pixels of the streaming backend\<close>

lemma index_in_band:
  fixes j l m n :: nat
  assumes "j < m" and "l < n"
  shows "j * n + l < m * n"
proof -
  from assms(1) have "Suc j \<le> m" by simp
  then have "Suc j * n \<le> m * n" by (rule mult_le_mono1)
  with assms(2) show ?thesis by simp
qed

lemma nth_concat_replicate:
  "j < length xs \<Longrightarrow> l < n \<Longrightarrow>
   concat (map (\<lambda>x. replicate n (f x)) xs) ! (j * n + l) = f (xs ! j)"
proof (induction xs arbitrary: j)
  case Nil
  then show ?case by simp
next
  case (Cons x xs)
  show ?case
  proof (cases j)
    case 0
    with Cons.prems show ?thesis by (simp add: nth_append)
  next
    case (Suc j')
    with Cons.prems have "j' < length xs" by simp
    from Cons.IH [OF this Cons.prems(2)] Suc show ?thesis by (simp add: nth_append)
  qed
qed

lemma nth_middle:
  "i < length D \<Longrightarrow> (A @ D @ C) ! (length A + i) = D ! i"
  by (simp add: nth_append)

lemma nth_outside_middle:
  assumes "r < length (A @ D @ C)" and "r < length A \<or> length A + length D \<le> r"
  shows "(A @ D @ C) ! r \<in> set A \<union> set C"
proof (cases "r < length A")
  case True
  then show ?thesis by (simp add: nth_append)
next
  case False
  with assms(2) have ge: "length A + length D \<le> r" by simp
  with assms(1) have "r - length A - length D < length C" by simp
  moreover have "(A @ D @ C) ! r = C ! (r - length A - length D)"
  proof -
    from ge have n1: "\<not> r < length A" and n2: "\<not> r - length A < length D" by arith+
    have "(A @ D @ C) ! r = (D @ C) ! (r - length A)" using n1 by (simp add: nth_append)
    also have "\<dots> = C ! (r - length A - length D)" using n2 by (simp add: nth_append)
    finally show ?thesis .
  qed
  ultimately show ?thesis by simp
qed

lemma rows_iter_parts:
  "rows_iter self =
     (yield_range (qr_offset_y self) (canvas_row self) @ border_rows_iter self)
     @ data_rows self (modules self)
     @ (border_rows_iter self
        @ yield_range (pixel_height self - qr_offset_y self - pixel_size self) (canvas_row self))"
  by (simp add: rows_iter_def Let_def)

lemma full_row_parts:
  "full_row self module_row =
     (py_repeat (PyInt 1) (qr_offset_x self) @ py_repeat (PyInt 1) (box_size self * border self))
     @ concat (map (\<lambda>point. replicate (nat (box_size self)) (PyBool (\<not> point))) module_row)
     @ (py_repeat (PyInt 1) (box_size self * border self)
        @ py_repeat (PyInt 1) (pixel_width self - qr_offset_x self - pixel_size self))"
  by (simp add: full_row_def Let_def py_repeat_def)

lemma canvas_row_light: "p \<in> set (canvas_row self) \<Longrightarrow> p = PyInt 1"
  by (simp add: canvas_row_def py_repeat_def)

lemma border_rows_light:
  "row \<in> set (border_rows_iter self) \<Longrightarrow> p \<in> set row \<Longrightarrow> p = PyInt 1"
  by (auto simp add: border_rows_iter_def yield_range_def py_repeat_def Let_def)

lemma set_full_row:
  assumes "p \<in> set (full_row self module_row)"
  shows "p = PyInt 1 \<or> (\<exists>point \<in> set module_row. p = PyBool (\<not> point))"
  using assms by (auto simp add: full_row_parts py_repeat_def)

lemma data_row_at:
  assumes "i < length (modules self)" and "k < nat (box_size self)"
  shows "rows_iter self ! (nat (qr_offset_y self) + nat (border self * box_size self)
           + i * nat (box_size self) + k) = full_row self (modules self ! i)"
proof -
  let ?A = "yield_range (qr_offset_y self) (canvas_row self) @ border_rows_iter self"
  let ?D = "data_rows self (modules self)"
  have la: "length ?A = nat (qr_offset_y self) + nat (border self * box_size self)"
    by (simp add: yield_range_def length_border_rows_iter)
  from index_in_band [OF assms]
  have inb: "i * nat (box_size self) + k < length ?D" by (simp add: length_data_rows)
  have "rows_iter self ! (length ?A + (i * nat (box_size self) + k))
      = ?D ! (i * nat (box_size self) + k)"
    unfolding rows_iter_parts using inb by (rule nth_middle)
  also have "\<dots> = full_row self (modules self ! i)"
    unfolding data_rows_concat using assms by (rule nth_concat_replicate)
  finally show ?thesis unfolding la by (simp only: add.assoc)
qed

lemma data_pixel_at:
  assumes "j < length module_row" and "l < nat (box_size self)"
  shows "full_row self module_row ! (nat (qr_offset_x self) + nat (box_size self * border self)
           + j * nat (box_size self) + l) = PyBool (\<not> module_row ! j)"
proof -
  let ?A = "py_repeat (PyInt 1) (qr_offset_x self)
            @ py_repeat (PyInt 1) (box_size self * border self)"
  let ?D = "concat (map (\<lambda>point. replicate (nat (box_size self)) (PyBool (\<not> point)))
              module_row)"
  have la: "length ?A = nat (qr_offset_x self) + nat (box_size self * border self)"
    by (simp add: py_repeat_def)
  from index_in_band [OF assms]
  have inb: "j * nat (box_size self) + l < length ?D" by (simp add: length_concat_replicate)
  have "full_row self module_row ! (length ?A + (j * nat (box_size self) + l))
      = ?D ! (j * nat (box_size self) + l)"
    unfolding full_row_parts using inb by (rule nth_middle)
  also have "\<dots> = PyBool (\<not> module_row ! j)"
    using assms by (rule nth_concat_replicate)
  finally show ?thesis unfolding la by (simp only: add.assoc)
qed

lemma side_pixel_light:
  assumes "c < length (full_row self module_row)"
    and "c < nat (qr_offset_x self) + nat (box_size self * border self)
         \<or> nat (qr_offset_x self) + nat (box_size self * border self)
             + length module_row * nat (box_size self) \<le> c"
  shows "full_row self module_row ! c = PyInt 1"
proof -
  let ?A = "py_repeat (PyInt 1) (qr_offset_x self)
            @ py_repeat (PyInt 1) (box_size self * border self)"
  let ?D = "concat (map (\<lambda>point. replicate (nat (box_size self)) (PyBool (\<not> point)))
              module_row)"
  let ?C = "py_repeat (PyInt 1) (box_size self * border self)
            @ py_repeat (PyInt 1) (pixel_width self - qr_offset_x self - pixel_size self)"
  have la: "length ?A = nat (qr_offset_x self) + nat (box_size self * border self)"
    by (simp add: py_repeat_def)
  have ld: "length ?D = length module_row * nat (box_size self)"
    by (simp add: length_concat_replicate)
  from assms(1) have "c < length (?A @ ?D @ ?C)" by (simp only: full_row_parts)
  moreover from assms(2) have "c < length ?A \<or> length ?A + length ?D \<le> c"
    by (simp only: la ld)
  ultimately have "(?A @ ?D @ ?C) ! c \<in> set ?A \<union> set ?C" by (rule nth_outside_middle)
  then have "full_row self module_row ! c \<in> set ?A \<union> set ?C" by (simp only: full_row_parts)
  then show ?thesis by (auto simp add: py_repeat_def)
qed

lemma outer_row_light:
  assumes "r < length (rows_iter self)"
    and "r < nat (qr_offset_y self) + nat (border self * box_size self)
         \<or> nat (qr_offset_y self) + nat (border self * box_size self)
             + length (modules self) * nat (box_size self) \<le> r"
  shows "\<forall>p \<in> set (rows_iter self ! r). p = PyInt 1"
proof -
  let ?A = "yield_range (qr_offset_y self) (canvas_row self) @ border_rows_iter self"
  let ?D = "data_rows self (modules self)"
  let ?C = "border_rows_iter self
    @ yield_range (pixel_height self - qr_offset_y self - pixel_size self) (canvas_row self)"
  have la: "length ?A = nat (qr_offset_y self) + nat (border self * box_size self)"
    by (simp add: yield_range_def length_border_rows_iter)
  have ld: "length ?D = length (modules self) * nat (box_size self)"
    by (simp add: length_data_rows)
  from assms(1) have "r < length (?A @ ?D @ ?C)" by (simp only: rows_iter_parts)
  moreover from assms(2) have "r < length ?A \<or> length ?A + length ?D \<le> r"
    by (simp only: la ld)
  ultimately have "(?A @ ?D @ ?C) ! r \<in> set ?A \<union> set ?C" by (rule nth_outside_middle)
  then have "rows_iter self ! r \<in> set ?A \<union> set ?C" by (simp only: rows_iter_parts)
  then have "rows_iter self ! r = canvas_row self
      \<or> rows_iter self ! r \<in> set (border_rows_iter self)"
    by (auto simp add: yield_range_def)
  then show ?thesis
  proof
    assume "rows_iter self ! r = canvas_row self"
    then show ?thesis by (simp add: canvas_row_light)
  next
    assume "rows_iter self ! r \<in> set (border_rows_iter self)"
    then show ?thesis using border_rows_light [of "rows_iter self ! r" self] by blast
  qed
qed

lemma light_matrix_light_rows:
  assumes "\<forall>module_row \<in> set (modules self). \<forall>point \<in> set module_row. \<not> point"
    and "row \<in> set (rows_iter self)" and "p \<in> set row"
  shows "is_light p \<and> \<not> is_dark p"
proof -
  from set_rows_iter [OF assms(2)]
  consider "row = canvas_row self" | "row \<in> set (border_rows_iter self)"
    | module_row where "module_row \<in> set (modules self)" "row = full_row self module_row"
    by blast
  then have "p = PyInt 1 \<or> p = PyBool True"
  proof cases
    case 1
    with assms(3) show ?thesis by (simp add: canvas_row_light)
  next
    case 2
    with assms(3) show ?thesis by (simp add: border_rows_light)
  next
    case 3
    from assms(3) 3(2) set_full_row [of p self module_row]
    have "p = PyInt 1 \<or> (\<exists>point \<in> set module_row. p = PyBool (\<not> point))" by simp
    with assms(1) 3(1) show ?thesis by auto
  qed
  then show ?thesis by (auto simp add: is_light_def is_dark_def)
qed

lemma BaseImage_init_succeeds:
  assumes "w + 2 * b \<noteq> 0"
  shows "\<exists>self. BaseImage_init b w bs q m = Inr self"
proof -
  from assms have nz: "w + b * 2 \<noteq> 0" by (simp add: mult.commute)
  show ?thesis
    using BaseImage_init_None [OF nz, of bs m] BaseImage_init_Some [OF nz, of bs _ m]
    by (cases q) simp_all
qed

section \<open>Claims about the row-count invariant\<close>

text \<open>
  C1. The claim is that for every valid border, width and box size the generator
  \<open>rows_iter\<close> yields exactly \<open>pixel_height\<close> rows, each of exactly \<open>pixel_width\<close>
  values. The code breaks it as soon as the symbol is wider than the canvas. For a
  21 by 21 matrix with border 4 and the target size 580 the symbol is 580 pixels wide,
  \<open>qr_offset_x\<close> is \<open>-2\<close>, both paddings are empty, and the row at index 81 (the
  first data row) holds 580 values where the canvas has 576. With the target size
  1000 the generator yields 1066 rows where the canvas has 864. Without a target
  size, width 1 with border 288 breaks the invariant as well.
\<close>

theorem symbol_wider_than_canvas_breaks_rows:
  "BaseImage_init 4 21 10 (Some 580) (replicate 21 (replicate 21 False)) =
     Inr \<lparr> border = 4, width = 21, pixel_width = 576, pixel_height = 864,
       text_area_height = 240, text_gap = 42, pixel_size = 580, box_size = 20,
       qr_offset_x = - 2, qr_offset_y = 1, text_offset_y = 623,
       modules = replicate 21 (replicate 21 False) \<rparr>
   \<and> pixel_width \<lparr> border = 4, width = 21, pixel_width = 576, pixel_height = 864,
       text_area_height = 240, text_gap = 42, pixel_size = 580, box_size = 20,
       qr_offset_x = - 2, qr_offset_y = 1, text_offset_y = 623,
       modules = replicate 21 (replicate 21 False) \<rparr> = 576
   \<and> length (rows_iter \<lparr> border = 4, width = 21, pixel_width = 576, pixel_height = 864,
       text_area_height = 240, text_gap = 42, pixel_size = 580, box_size = 20,
       qr_offset_x = - 2, qr_offset_y = 1, text_offset_y = 623,
       modules = replicate 21 (replicate 21 False) \<rparr>) = 864
   \<and> rows_iter \<lparr> border = 4, width = 21, pixel_width = 576, pixel_height = 864,
       text_area_height = 240, text_gap = 42, pixel_size = 580, box_size = 20,
       qr_offset_x = - 2, qr_offset_y = 1, text_offset_y = 623,
       modules = replicate 21 (replicate 21 False) \<rparr> ! 81
       = full_row \<lparr> border = 4, width = 21, pixel_width = 576, pixel_height = 864,
       text_area_height = 240, text_gap = 42, pixel_size = 580, box_size = 20,
       qr_offset_x = - 2, qr_offset_y = 1, text_offset_y = 623,
       modules = replicate 21 (replicate 21 False) \<rparr> (replicate 21 False)
   \<and> length (rows_iter \<lparr> border = 4, width = 21, pixel_width = 576, pixel_height = 864,
       text_area_height = 240, text_gap = 42, pixel_size = 580, box_size = 20,
       qr_offset_x = - 2, qr_offset_y = 1, text_offset_y = 623,
       modules = replicate 21 (replicate 21 False) \<rparr> ! 81) = 580
   \<and> \<not> row_count_invariant \<lparr> border = 4, width = 21, pixel_width = 576, pixel_height = 864,
       text_area_height = 240, text_gap = 42, pixel_size = 580, box_size = 20,
       qr_offset_x = - 2, qr_offset_y = 1, text_offset_y = 623,
       modules = replicate 21 (replicate 21 False) \<rparr>
   \<and> \<not> render_invariant 4 21 10 (Some 580) (replicate 21 (replicate 21 False))
   \<and> BaseImage_init 4 21 10 (Some 1000) (replicate 21 (replicate 21 False)) =
       Inr \<lparr> border = 4, width = 21, pixel_width = 576, pixel_height = 864,
       text_area_height = 240, text_gap = 42, pixel_size = 986, box_size = 34,
       qr_offset_x = - 205, qr_offset_y = - 202, text_offset_y = 826,
       modules = replicate 21 (replicate 21 False) \<rparr>
   \<and> pixel_height \<lparr> border = 4, width = 21, pixel_width = 576, pixel_height = 864,
       text_area_height = 240, text_gap = 42, pixel_size = 986, box_size = 34,
       qr_offset_x = - 205, qr_offset_y = - 202, text_offset_y = 826,
       modules = replicate 21 (replicate 21 False) \<rparr> = 864
   \<and> length (rows_iter \<lparr> border = 4, width = 21, pixel_width = 576, pixel_height = 864,
       text_area_height = 240, text_gap = 42, pixel_size = 986, box_size = 34,
       qr_offset_x = - 205, qr_offset_y = - 202, text_offset_y = 826,
       modules = replicate 21 (replicate 21 False) \<rparr>) = 1066
   \<and> \<not> render_invariant 4 21 10 (Some 1000) (replicate 21 (replicate 21 False))
   \<and> \<not> render_invariant 288 1 1 None [[False]]"
proof -
  let ?m = "replicate 21 (replicate 21 False)"
  let ?g = "\<lparr> border = 4, width = 21, pixel_width = 576, pixel_height = 864,
       text_area_height = 240, text_gap = 42, pixel_size = 580, box_size = 20,
       qr_offset_x = - 2, qr_offset_y = 1, text_offset_y = 623,
       modules = replicate 21 (replicate 21 False) \<rparr>"
  let ?h = "\<lparr> border = 4, width = 21, pixel_width = 576, pixel_height = 864,
       text_area_height = 240, text_gap = 42, pixel_size = 986, box_size = 34,
       qr_offset_x = - 205, qr_offset_y = - 202, text_offset_y = 826,
       modules = replicate 21 (replicate 21 False) \<rparr>"
  let ?k = "\<lparr> border = 288, width = 1, pixel_width = 576, pixel_height = 864,
      text_area_height = 240, text_gap = 42, pixel_size = 577, box_size = 1,
      qr_offset_x = - 1, qr_offset_y = 2, text_offset_y = 621, modules = [[False]] \<rparr>"
  have i: "BaseImage_init 4 21 10 (Some 580) ?m = Inr ?g"
    by (simp add: BaseImage_init_Some)
  have len: "length (rows_iter ?g) = 864"
    by (simp add: length_rows_iter)
  have "(0::nat) < length (modules ?g)" and "(0::nat) < nat (box_size ?g)" by simp_all
  from data_row_at [OF this]
  have row: "rows_iter ?g ! 81 = full_row ?g (replicate 21 False)" by simp
  have lr: "length (full_row ?g (replicate 21 False)) = 580"
    by (simp add: length_full_row)
  from len have "rows_iter ?g ! 81 \<in> set (rows_iter ?g)" by simp
  with row lr have "\<exists>r \<in> set (rows_iter ?g). int (length r) \<noteq> pixel_width ?g"
    by force
  then have bad: "\<not> row_count_invariant ?g"
    by (simp add: row_count_invariant_def list_all_iff)
  from bad i have r580: "\<not> render_invariant 4 21 10 (Some 580) ?m"
    by (simp add: render_invariant_def)
  have j: "BaseImage_init 4 21 10 (Some 1000) ?m = Inr ?h"
    by (simp add: BaseImage_init_Some)
  have len2: "length (rows_iter ?h) = 1066"
    by (simp add: length_rows_iter)
  then have "\<not> row_count_invariant ?h"
    by (simp add: row_count_invariant_def)
  with j have r1000: "\<not> render_invariant 4 21 10 (Some 1000) ?m"
    by (simp add: render_invariant_def)
  have l: "BaseImage_init 288 1 1 None [[False]] = Inr ?k"
    by (simp add: BaseImage_init_None)
  have "full_row ?k [False] \<in> set (rows_iter ?k)"
    by (rule full_row_in_rows_iter) simp_all
  moreover have "int (length (full_row ?k [False])) \<noteq> pixel_width ?k"
    by (simp add: length_full_row)
  ultimately have "\<not> list_all (\<lambda>row. int (length row) = pixel_width ?k) (rows_iter ?k)"
    by (auto simp add: list_all_iff)
  then have r288: "\<not> render_invariant 288 1 1 None [[False]]"
    by (simp add: render_invariant_def l row_count_invariant_def)
  have pw: "pixel_width ?g = 576" and ph: "pixel_height ?h = 864" by simp_all
  from i pw len row lr bad r580 j ph len2 r1000 r288 show ?thesis
    by (simp only: simp_thms)
qed

section \<open>Claims about the pixels of the streaming backend\<close>

text \<open>
  C7. In the rows of the streaming backend, below the top filler and the top border
  rows, module row \<open>i\<close> of the matrix is emitted \<open>box_size\<close> times as the same pixel
  row; in that row, to the right of the left padding and the border columns, module
  \<open>j\<close> occupies \<open>box_size\<close> pixels that are dark exactly when the module is dark and
  light otherwise; every other pixel of the row (padding and border columns) is the
  light value 1; every row outside the band of data rows (filler and border rows) holds
  only the light value 1. So a matrix without dark modules gives rows without dark
  pixels, and this holds in particular for the all-false 3 by 3 matrix with border 0
  and box size 1, whatever the target size.
\<close>

theorem data_rows_expand_modules:
  "(i < length (modules self) \<and> k < nat (box_size self) \<longrightarrow>
      rows_iter self ! (nat (qr_offset_y self) + nat (border self * box_size self)
                        + i * nat (box_size self) + k)
        = full_row self (modules self ! i))
   \<and> (j < length module_row \<and> l < nat (box_size self) \<longrightarrow>
        full_row self module_row ! (nat (qr_offset_x self) + nat (box_size self * border self)
                                    + j * nat (box_size self) + l)
          = PyBool (\<not> module_row ! j)
        \<and> is_dark (full_row self module_row !
                     (nat (qr_offset_x self) + nat (box_size self * border self)
                      + j * nat (box_size self) + l)) = (module_row ! j)
        \<and> is_light (full_row self module_row !
                      (nat (qr_offset_x self) + nat (box_size self * border self)
                       + j * nat (box_size self) + l)) = (\<not> module_row ! j))
   \<and> (c < length (full_row self module_row)
        \<and> (c < nat (qr_offset_x self) + nat (box_size self * border self)
            \<or> nat (qr_offset_x self) + nat (box_size self * border self)
                + length module_row * nat (box_size self) \<le> c) \<longrightarrow>
        full_row self module_row ! c = PyInt 1)
   \<and> (r < length (rows_iter self)
        \<and> (r < nat (qr_offset_y self) + nat (border self * box_size self)
            \<or> nat (qr_offset_y self) + nat (border self * box_size self)
                + length (modules self) * nat (box_size self) \<le> r) \<longrightarrow>
        (\<forall>p \<in> set (rows_iter self ! r). p = PyInt 1))
   \<and> is_light (PyInt 1) \<and> \<not> is_dark (PyInt 1)
   \<and> ((\<forall>module_row \<in> set (modules self). \<forall>point \<in> set module_row. \<not> point) \<longrightarrow>
        (\<forall>row \<in> set (rows_iter self). \<forall>p \<in> set row. is_light p \<and> \<not> is_dark p))
   \<and> (\<exists>img. BaseImage_init 0 3 1 q (replicate 3 (replicate 3 False)) = Inr img
          \<and> (\<forall>row \<in> set (rows_iter img). \<forall>p \<in> set row. is_light p \<and> \<not> is_dark p))"
proof (intro conjI impI)
  assume "i < length (modules self) \<and> k < nat (box_size self)"
  then show "rows_iter self ! (nat (qr_offset_y self) + nat (border self * box_size self)
                        + i * nat (box_size self) + k)
        = full_row self (modules self ! i)"
    using data_row_at [of i self k] by blast
next
  assume a: "j < length module_row \<and> l < nat (box_size self)"
  then have px: "full_row self module_row !
      (nat (qr_offset_x self) + nat (box_size self * border self)
       + j * nat (box_size self) + l) = PyBool (\<not> module_row ! j)"
    using data_pixel_at [of j module_row l self] by blast
  then show "full_row self module_row !
      (nat (qr_offset_x self) + nat (box_size self * border self)
       + j * nat (box_size self) + l) = PyBool (\<not> module_row ! j)" .
  from px show "is_dark (full_row self module_row !
                     (nat (qr_offset_x self) + nat (box_size self * border self)
                      + j * nat (box_size self) + l)) = (module_row ! j)"
    by (simp add: is_dark_def)
  from px show "is_light (full_row self module_row !
                      (nat (qr_offset_x self) + nat (box_size self * border self)
                       + j * nat (box_size self) + l)) = (\<not> module_row ! j)"
    by (simp add: is_light_def)
next
  assume "c < length (full_row self module_row)
        \<and> (c < nat (qr_offset_x self) + nat (box_size self * border self)
            \<or> nat (qr_offset_x self) + nat (box_size self * border self)
                + length module_row * nat (box_size self) \<le> c)"
  then show "full_row self module_row ! c = PyInt 1"
    using side_pixel_light [of c self module_row] by blast
next
  assume "r < length (rows_iter self)
        \<and> (r < nat (qr_offset_y self) + nat (border self * box_size self)
            \<or> nat (qr_offset_y self) + nat (border self * box_size self)
                + length (modules self) * nat (box_size self) \<le> r)"
  then show "\<forall>p \<in> set (rows_iter self ! r). p = PyInt 1"
    using outer_row_light [of r self] by blast
next
  show "is_light (PyInt 1)" by (simp add: is_light_def)
  show "\<not> is_dark (PyInt 1)" by (simp add: is_dark_def)
next
  assume "\<forall>module_row \<in> set (modules self). \<forall>point \<in> set module_row. \<not> point"
  then show "\<forall>row \<in> set (rows_iter self). \<forall>p \<in> set row. is_light p \<and> \<not> is_dark p"
    using light_matrix_light_rows [of self] by blast
next
  have "(3::int) + 2 * 0 \<noteq> 0" by simp
  from BaseImage_init_succeeds [OF this, of 1 q "replicate 3 (replicate 3 False)"]
  obtain img where img: "BaseImage_init 0 3 1 q (replicate 3 (replicate 3 False)) = Inr img"
    by blast
  from BaseImage_init_fields(3) [OF img]
  have "\<forall>module_row \<in> set (modules img). \<forall>point \<in> set module_row. \<not> point" by simp
  then have "\<forall>row \<in> set (rows_iter img). \<forall>p \<in> set row. is_light p \<and> \<not> is_dark p"
    using light_matrix_light_rows [of img] by blast
  with img show "\<exists>img. BaseImage_init 0 3 1 q (replicate 3 (replicate 3 False)) = Inr img
          \<and> (\<forall>row \<in> set (rows_iter img). \<forall>p \<in> set row. is_light p \<and> \<not> is_dark p)"
    by blast
qed

theorem data_rows_expand_modules_witness:
  "BaseImage_init 0 3 1 (Some 6) [[False, True, False], [False, False, False], [True, False, False]]
     = Inr \<lparr> border = 0, width = 3, pixel_width = 576, pixel_height = 864,
         text_area_height = 240, text_gap = 42, pixel_size = 6, box_size = 2,
         qr_offset_x = 285, qr_offset_y = 288, text_offset_y = 336,
         modules = [[False, True, False], [False, False, False], [True, False, False]] \<rparr>
   \<and> rows_iter \<lparr> border = 0, width = 3, pixel_width = 576, pixel_height = 864,
         text_area_height = 240, text_gap = 42, pixel_size = 6, box_size = 2,
         qr_offset_x = 285, qr_offset_y = 288, text_offset_y = 336,
         modules = [[False, True, False], [False, False, False], [True, False, False]] \<rparr> ! 289
       = full_row \<lparr> border = 0, width = 3, pixel_width = 576, pixel_height = 864,
         text_area_height = 240, text_gap = 42, pixel_size = 6, box_size = 2,
         qr_offset_x = 285, qr_offset_y = 288, text_offset_y = 336,
         modules = [[False, True, False], [False, False, False], [True, False, False]] \<rparr> [False, True, False]
   \<and> full_row \<lparr> border = 0, width = 3, pixel_width = 576, pixel_height = 864,
         text_area_height = 240, text_gap = 42, pixel_size = 6, box_size = 2,
         qr_offset_x = 285, qr_offset_y = 288, text_offset_y = 336,
         modules = [[False, True, False], [False, False, False], [True, False, False]] \<rparr> [False, True, False] ! 287 = PyBool False
   \<and> is_dark (full_row \<lparr> border = 0, width = 3, pixel_width = 576, pixel_height = 864,
         text_area_height = 240, text_gap = 42, pixel_size = 6, box_size = 2,
         qr_offset_x = 285, qr_offset_y = 288, text_offset_y = 336,
         modules = [[False, True, False], [False, False, False], [True, False, False]] \<rparr> [False, True, False] ! 287)
   \<and> full_row \<lparr> border = 0, width = 3, pixel_width = 576, pixel_height = 864,
         text_area_height = 240, text_gap = 42, pixel_size = 6, box_size = 2,
         qr_offset_x = 285, qr_offset_y = 288, text_offset_y = 336,
         modules = [[False, True, False], [False, False, False], [True, False, False]] \<rparr> [False, True, False] ! 0 = PyInt 1
   \<and> set (rows_iter \<lparr> border = 0, width = 3, pixel_width = 576, pixel_height = 864,
         text_area_height = 240, text_gap = 42, pixel_size = 6, box_size = 2,
         qr_offset_x = 285, qr_offset_y = 288, text_offset_y = 336,
         modules = [[False, True, False], [False, False, False], [True, False, False]] \<rparr> ! 0) \<subseteq> {PyInt 1}"
proof -
  let ?g = "\<lparr> border = 0, width = 3, pixel_width = 576, pixel_height = 864,
         text_area_height = 240, text_gap = 42, pixel_size = 6, box_size = 2,
         qr_offset_x = 285, qr_offset_y = 288, text_offset_y = 336,
         modules = [[False, True, False], [False, False, False], [True, False, False]] \<rparr>"
  have h1: "(0::nat) < length (modules ?g) \<and> (1::nat) < nat (box_size ?g)" by simp
  have h2: "(1::nat) < length [False, True, False] \<and> (0::nat) < nat (box_size ?g)" by simp
  have h3: "(0::nat) < length (full_row ?g [False, True, False])
      \<and> ((0::nat) < nat (qr_offset_x ?g) + nat (box_size ?g * border ?g)
          \<or> nat (qr_offset_x ?g) + nat (box_size ?g * border ?g)
              + length [False, True, False] * nat (box_size ?g) \<le> 0)"
    by (simp add: length_full_row)
  have h4: "(0::nat) < length (rows_iter ?g)
      \<and> ((0::nat) < nat (qr_offset_y ?g) + nat (border ?g * box_size ?g)
          \<or> nat (qr_offset_y ?g) + nat (border ?g * box_size ?g)
              + length (modules ?g) * nat (box_size ?g) \<le> 0)"
    by (simp add: length_rows_iter)
  note t = data_rows_expand_modules [where self = ?g and i = 0 and k = 1 and j = 1 and l = 0
      and module_row = "[False, True, False]" and c = 0 and r = 0 and q = None]
  have i: "BaseImage_init 0 3 1 (Some 6)
      [[False, True, False], [False, False, False], [True, False, False]] = Inr ?g"
    by (simp add: BaseImage_init_Some)
  from t h1 have a: "rows_iter ?g ! 289 = full_row ?g [False, True, False]" by simp
  from t h2 have b: "full_row ?g [False, True, False] ! 287 = PyBool False
      \<and> is_dark (full_row ?g [False, True, False] ! 287)"
    by (simp add: is_dark_def)
  from t h3 have c: "full_row ?g [False, True, False] ! 0 = PyInt 1" by blast
  from t h4 have "\<forall>p \<in> set (rows_iter ?g ! 0). p = PyInt 1" by blast
  then have d: "set (rows_iter ?g ! 0) \<subseteq> {PyInt 1}" by blast
  from i a b c d show ?thesis by blast
qed

end
